theory Spec2Isabelle
  imports Complex_Main
begin

section \<open>Indian market stock allocator: the scan, score and allocate pipeline of app.py\<close>

text \<open>
  The closing prices that yfinance delivers are float64 values. They are read here as
  real numbers and every arithmetic step is exact; a missing close (NaN inside the
  history) is not part of the input type. Where numpy and pandas leave the finite
  numbers (the NaN that \<open>diff\<close> puts in front, a division by zero) the model writes
  the special value out.
\<close>

subsection \<open>Values and exceptions\<close>

datatype exn = FetchError | ZeroDivisionError | IntCastingNaNError

text \<open>The result of a numpy float division: dividing by zero does not raise.\<close>

datatype npfloat = Fin real | PosInf | NegInf | NaN

definition np_div :: "real \<Rightarrow> real \<Rightarrow> npfloat" where
  "np_div a b =
     (if b \<noteq> 0 then Fin (a / b)
      else if a > 0 then PosInf
      else if a < 0 then NegInf
      else NaN)"

fun np_gt :: "npfloat \<Rightarrow> real \<Rightarrow> bool" where
  "np_gt (Fin x) y = (x > y)"
| "np_gt PosInf y = True"
| "np_gt NegInf y = False"
| "np_gt NaN y = False"

record indicator =
  Ticker :: string
  Price :: real
  Score :: int
  RSI :: real
  Trend :: string

text \<open>What \<open>yf.Ticker(ticker).history(period="1mo")\<close> gives: it raises, or it returns
  the rows of the month, of which only the Close column is read.\<close>

type_synonym provider = "string \<Rightarrow> exn + real list"

subsection \<open>The pandas operations that analyze\_stock uses\<close>

text \<open>\<open>Series.mean()\<close>; it is only reached on series of at least ten rows.\<close>

definition mean :: "real list \<Rightarrow> real" where
  "mean xs = sum_list xs / real (length xs)"

text \<open>\<open>Series.tail(k)\<close>: the last k rows, all of them when there are fewer.\<close>

definition tail :: "nat \<Rightarrow> 'a list \<Rightarrow> 'a list" where
  "tail k xs = drop (length xs - k) xs"

text \<open>\<open>Series.diff()\<close>: as many rows as the series, the first one NaN (\<open>None\<close>).\<close>

fun diff_from :: "real \<Rightarrow> real list \<Rightarrow> real option list" where
  "diff_from p [] = []"
| "diff_from p (c # cs) = Some (c - p) # diff_from c cs"

fun diff :: "real list \<Rightarrow> real option list" where
  "diff [] = []"
| "diff (c # cs) = None # diff_from c cs"

text \<open>\<open>delta.where(delta > 0, 0)\<close> and \<open>delta.where(delta < 0, 0)\<close>: a row is kept
  where the comparison is true, and is 0 elsewhere; a comparison with NaN is false.\<close>

fun where_pos :: "real option \<Rightarrow> real" where
  "where_pos None = 0"
| "where_pos (Some d) = (if d > 0 then d else 0)"

fun where_neg :: "real option \<Rightarrow> real" where
  "where_neg None = 0"
| "where_neg (Some d) = (if d < 0 then d else 0)"

text \<open>\<open>str.replace(".NS", "")\<close>: every occurrence, left to right, without overlap.\<close>

function replace_NS :: "string \<Rightarrow> string" where
  "replace_NS s =
     (if s = [] then []
      else if take 3 s = ''.NS'' then replace_NS (drop 3 s)
      else hd s # replace_NS (tl s))"
  by pat_completeness auto
termination
  by (relation "measure length") (auto simp: neq_Nil_conv)

subsection \<open>analyze\_stock\<close>

definition gain :: "real list \<Rightarrow> real" where
  "gain hist = mean (map where_pos (diff hist))"

definition loss :: "real list \<Rightarrow> real" where
  "loss hist = mean (map (\<lambda>d. - where_neg d) (diff hist))"

definition rs :: "real list \<Rightarrow> real" where
  "rs hist = (if loss hist \<noteq> 0 then gain hist / loss hist else 0)"

definition rsi :: "real list \<Rightarrow> real" where
  "rsi hist = 100 - (100 / (1 + rs hist))"

definition sma_20 :: "real list \<Rightarrow> real" where
  "sma_20 hist = mean (tail 20 hist)"

definition momentum :: "real list \<Rightarrow> npfloat" where
  "momentum hist = np_div (last hist - hd hist) (hd hist)"

text \<open>The body of the \<open>try\<close>: \<open>Inl\<close> is an exception leaving it, \<open>Inr None\<close> the
  early \<open>return None\<close>.\<close>

definition analyze_stock_try :: "provider \<Rightarrow> string \<Rightarrow> exn + indicator option" where
  "analyze_stock_try yf ticker =
     (case yf ticker of
        Inl e \<Rightarrow> Inl e
      | Inr hist \<Rightarrow>
          if length hist < 10 then Inr None
          else
            let current = last hist;
                score = 50;
                score = (if rsi hist < 35 then score + 15
                         else if rsi hist > 70 then score - 15
                         else score);
                score = (if current > sma_20 hist then score + 15 else score);
                score = (if np_gt (momentum hist) 0 then score + 10 else score)
            in Inr (Some \<lparr>Ticker = replace_NS ticker,
                          Price = current,
                          Score = score,
                          RSI = rsi hist,
                          Trend = (if current > sma_20 hist then ''Bullish'' else ''Bearish'')\<rparr>))"

text \<open>The bare \<open>except\<close> turns every exception into \<open>None\<close>.\<close>

definition analyze_stock :: "provider \<Rightarrow> string \<Rightarrow> indicator option" where
  "analyze_stock yf ticker =
     (case analyze_stock_try yf ticker of Inl e \<Rightarrow> None | Inr r \<Rightarrow> r)"

subsection \<open>The ticker list\<close>

datatype scan_mode = Nifty50_Fast | Full_Market_Slow

definition get_nifty50_tickers :: "string list" where
  "get_nifty50_tickers =
     [''ADANIENT.NS'', ''ADANIPORTS.NS'', ''APOLLOHOSP.NS'', ''ASIANPAINT.NS'', ''AXISBANK.NS'',
      ''BAJAJ-AUTO.NS'', ''BAJFINANCE.NS'', ''BAJAJFINSV.NS'', ''BHARTIARTL.NS'', ''BPCL.NS'',
      ''BRITANNIA.NS'', ''CIPLA.NS'', ''COALINDIA.NS'', ''DIVISLAB.NS'', ''DRREDDY.NS'',
      ''EICHERMOT.NS'', ''GRASIM.NS'', ''HCLTECH.NS'', ''HDFCBANK.NS'', ''HDFCLIFE.NS'',
      ''HEROMOTOCO.NS'', ''HINDALCO.NS'', ''HINDUNILVR.NS'', ''ICICIBANK.NS'', ''INDUSINDBK.NS'',
      ''INFY.NS'', ''ITC.NS'', ''JSWSTEEL.NS'', ''KOTAKBANK.NS'', ''LT.NS'',
      ''LTIM.NS'', ''M&M.NS'', ''MARUTI.NS'', ''NESTLEIND.NS'', ''NTPC.NS'',
      ''ONGC.NS'', ''POWERGRID.NS'', ''RELIANCE.NS'', ''SBILIFE.NS'', ''SBIN.NS'',
      ''SUNPHARMA.NS'', ''TATACONSUM.NS'', ''TATAMOTORS.NS'', ''TATASTEEL.NS'', ''TCS.NS'',
      ''TECHM.NS'', ''TITAN.NS'', ''ULTRACEMCO.NS'', ''UPL.NS'', ''WIPRO.NS'']"

text \<open>Step 1 of the run. \<open>all_nse\<close> is what \<open>get_all_nse_tickers()\<close> returned (the
  symbols of the downloaded CSV, or the empty list when the download failed). The second
  component says whether \<open>st.warning\<close> was shown.\<close>

definition select_tickers :: "scan_mode \<Rightarrow> string list \<Rightarrow> string list \<times> bool" where
  "select_tickers scan_mode all_nse =
     (case scan_mode of
        Nifty50_Fast \<Rightarrow> (get_nifty50_tickers, False)
      | Full_Market_Slow \<Rightarrow>
          if length all_nse > 200 then (take 200 all_nse, True)
          else (all_nse, False))"

subsection \<open>The scan loop\<close>

text \<open>The state of the loop: the collected \<open>results\<close> and the values given to the
  progress bar, together with the tickers that \<open>analyze_stock\<close> was called on so far.\<close>

record scan_state =
  results :: "indicator list"
  analysed :: "string list"
  progress :: "real list"

fun scan_loop :: "provider \<Rightarrow> nat \<Rightarrow> nat \<Rightarrow> string list \<Rightarrow> scan_state \<Rightarrow> scan_state" where
  "scan_loop yf len_tickers i [] st = st"
| "scan_loop yf len_tickers i (ticker # rest) st =
     scan_loop yf len_tickers (i + 1) rest
       \<lparr>results = (case analyze_stock yf ticker of
                     Some data \<Rightarrow> results st @ [data]
                   | None \<Rightarrow> results st),
        analysed = analysed st @ [ticker],
        progress = progress st @ [real (i + 1) / real len_tickers]\<rparr>"

definition scan :: "provider \<Rightarrow> string list \<Rightarrow> scan_state" where
  "scan yf tickers =
     scan_loop yf (length tickers) 0 tickers \<lparr>results = [], analysed = [], progress = []\<rparr>"

subsection \<open>The allocation\<close>

record portfolio_row = indicator +
  Qty :: int
  Total_Cost :: real

datatype allocation =
    NoAffordable real
  | Dashboard "portfolio_row list" real real

text \<open>\<open>(target_per_stock // portfolio['Price']).astype(int)\<close>: pandas gives an infinite
  or NaN quotient on a zero price, and \<open>astype(int)\<close> raises on such a column.\<close>

definition Qty_column :: "real \<Rightarrow> indicator list \<Rightarrow> exn + int list" where
  "Qty_column target_per_stock portfolio =
     (if \<exists>r \<in> set portfolio. Price r = 0 then Inl IntCastingNaNError
      else Inr (map (\<lambda>r. \<lfloor>target_per_stock / Price r\<rfloor>) portfolio))"

definition add_columns :: "indicator \<Rightarrow> int \<Rightarrow> portfolio_row" where
  "add_columns r q =
     indicator.extend r (portfolio_row.fields q (real_of_int q * Price r))"

text \<open>\<open>target_per_stock = budget / num_stocks\<close>, Python's true division of the integers
  of the two \<open>number_input\<close> widgets; \<open>allocate\<close> below raises where Python does, on a
  zero divisor.\<close>

definition target_per_stock :: "int \<Rightarrow> nat \<Rightarrow> real" where
  "target_per_stock budget num_stocks = real_of_int budget / real num_stocks"

text \<open>\<open>affordable_df = df[df['Price'] <= target_per_stock]\<close>\<close>

definition affordable_df :: "indicator list \<Rightarrow> real \<Rightarrow> indicator list" where
  "affordable_df df cap = filter (\<lambda>r. Price r \<le> cap) df"

text \<open>The block after the sort. The result is the error message with its amount, or the
  rows of the dashboard with the total invested and the savings.\<close>

definition allocate :: "indicator list \<Rightarrow> int \<Rightarrow> nat \<Rightarrow> exn + allocation" where
  "allocate df budget num_stocks =
     (if num_stocks = 0 then Inl ZeroDivisionError
      else
        if affordable_df df (target_per_stock budget num_stocks) = []
        then Inr (NoAffordable (target_per_stock budget num_stocks))
        else
          let portfolio = take num_stocks (affordable_df df (target_per_stock budget num_stocks))
          in case Qty_column (target_per_stock budget num_stocks) portfolio of
               Inl e \<Rightarrow> Inl e
             | Inr qtys \<Rightarrow>
                 let portfolio = map2 add_columns portfolio qtys;
                     portfolio = filter (\<lambda>r. Qty r > 0) portfolio;
                     total_invested = sum_list (map Total_Cost portfolio);
                     savings = real_of_int budget - total_invested
                 in Inr (Dashboard portfolio total_invested savings))"


subsection \<open>The run\<close>

datatype run_outcome = NoData | Allocation "exn + allocation"

record run_report =
  warning :: bool
  scanned :: scan_state
  outcome :: run_outcome

text \<open>What happens when the button is pressed. \<open>sort_values\<close> stands for pandas'
  \<open>DataFrame.sort_values(by="Score", ascending=False)\<close> with its default sorting kind;
  \<open>st.stop()\<close> ends the run at once.\<close>

definition run ::
  "(indicator list \<Rightarrow> indicator list) \<Rightarrow> provider \<Rightarrow> string list \<Rightarrow>
     scan_mode \<Rightarrow> int \<Rightarrow> nat \<Rightarrow> run_report" where
  "run sort_values yf all_nse scan_mode budget num_stocks =
     (let (tickers, warned) = select_tickers scan_mode all_nse;
          st = scan yf tickers
      in if results st = [] then \<lparr>warning = warned, scanned = st, outcome = NoData\<rparr>
         else
           let df = sort_values (results st)
           in \<lparr>warning = warned, scanned = st,
               outcome = Allocation (allocate df budget num_stocks)\<rparr>)"

subsection \<open>The RSI as the specification words it\<close>






section \<open>Properties of analyze\_stock\<close>

lemma length_diff_from: "length (diff_from p cs) = length cs"
  by (induction cs arbitrary: p) auto

lemma length_diff: "length (diff hist) = length hist"
  by (cases hist) (auto simp: length_diff_from)

lemma where_pos_nonneg: "0 \<le> where_pos d"
  by (cases d) auto

lemma where_neg_nonpos: "where_neg d \<le> 0"
  by (cases d) auto

lemma gain_nonneg: "0 \<le> gain hist"
  unfolding gain_def mean_def
  by (intro divide_nonneg_nonneg sum_list_nonneg) (auto simp: where_pos_nonneg)

lemma loss_nonneg: "0 \<le> loss hist"
  unfolding loss_def mean_def
  by (intro divide_nonneg_nonneg sum_list_nonneg) (auto simp: where_neg_nonpos)

lemma rs_nonneg: "0 \<le> rs hist"
  unfolding rs_def using gain_nonneg [of hist] loss_nonneg [of hist] by simp

lemma rsi_range: "0 \<le> rsi hist \<and> rsi hist < 100"
proof -
  have "1 \<le> 1 + rs hist" using rs_nonneg [of hist] by simp
  then have "0 < 100 / (1 + rs hist)" "100 / (1 + rs hist) \<le> 100"
    by (simp_all add: divide_le_eq)
  then show ?thesis unfolding rsi_def by simp
qed


lemma analyze_stock_try_short:
  "yf ticker = Inr hist \<Longrightarrow> length hist < 10 \<Longrightarrow> analyze_stock_try yf ticker = Inr None"
  by (simp add: analyze_stock_try_def)

lemma analyze_stock_try_long:
  assumes "yf ticker = Inr hist" and "10 \<le> length hist"
  shows "analyze_stock_try yf ticker =
           Inr (Some \<lparr>Ticker = replace_NS ticker, Price = last hist,
                      Score = 50 + (if rsi hist < 35 then 15 else if rsi hist > 70 then - 15 else 0)
                                 + (if last hist > sma_20 hist then 15 else 0)
                                 + (if np_gt (momentum hist) 0 then 10 else 0),
                      RSI = rsi hist,
                      Trend = (if last hist > sma_20 hist then ''Bullish'' else ''Bearish'')\<rparr>)"
proof -
  have "\<not> length hist < 10" using assms(2) by simp
  then show ?thesis
    unfolding analyze_stock_try_def Let_def using assms(1) by simp
qed

lemma analyze_stock_long:
  assumes "yf ticker = Inr hist" and "10 \<le> length hist"
  shows "analyze_stock yf ticker =
           Some \<lparr>Ticker = replace_NS ticker, Price = last hist,
                 Score = 50 + (if rsi hist < 35 then 15 else if rsi hist > 70 then - 15 else 0)
                            + (if last hist > sma_20 hist then 15 else 0)
                            + (if np_gt (momentum hist) 0 then 10 else 0),
                 RSI = rsi hist,
                 Trend = (if last hist > sma_20 hist then ''Bullish'' else ''Bearish'')\<rparr>"
  using analyze_stock_try_long [of yf ticker hist] assms by (simp add: analyze_stock_def)

lemma analyze_stock_short:
  "yf ticker = Inr hist \<Longrightarrow> length hist < 10 \<Longrightarrow> analyze_stock yf ticker = None"
  by (simp add: analyze_stock_def analyze_stock_try_short)

lemma analyze_stock_raise:
  "analyze_stock_try yf ticker = Inl e \<Longrightarrow> analyze_stock yf ticker = None"
  by (simp add: analyze_stock_def)

lemma analyze_stock_fetch_error:
  "yf ticker = Inl e \<Longrightarrow> analyze_stock_try yf ticker = Inl e"
  by (simp add: analyze_stock_try_def)


lemma sum_list_all_zero:
  fixes f :: "'a \<Rightarrow> real"
  shows "\<forall>x \<in> set xs. f x = 0 \<Longrightarrow> sum_list (map f xs) = 0"
  by (induction xs) auto

lemma loss_zero:
  assumes "\<forall>d. Some d \<in> set (diff hist) \<longrightarrow> 0 \<le> d"
  shows "loss hist = 0"
proof -
  have "\<forall>x \<in> set (diff hist). - where_neg x = 0"
  proof
    fix x assume x: "x \<in> set (diff hist)"
    show "- where_neg x = 0"
    proof (cases x)
      case None
      then show ?thesis by simp
    next
      case (Some d)
      with x assms have "0 \<le> d" by blast
      with Some show ?thesis by simp
    qed
  qed
  then have "sum_list (map (\<lambda>d. - where_neg d) (diff hist)) = 0"
    by (rule sum_list_all_zero)
  then show ?thesis unfolding loss_def mean_def by simp
qed


text \<open>Claim C1. When a history of at least ten closes never falls from one day to the
  next, the average loss is 0, so \<open>rs\<close> is 0 and the RSI that \<open>analyze_stock\<close> returns is
  exactly 0 (and not 100, the value of the textbook RSI).\<close>

theorem rsi_zero_without_losses:
  assumes "yf ticker = Inr hist" and "10 \<le> length hist"
    and "\<forall>d. Some d \<in> set (diff hist) \<longrightarrow> 0 \<le> d"
  shows "rs hist = 0 \<and> (\<exists>r. analyze_stock yf ticker = Some r \<and> RSI r = 0)"
proof -
  have "loss hist = 0" using assms(3) by (rule loss_zero)
  then have r0: "rs hist = 0" by (simp add: rs_def)
  then have z: "rsi hist = 0" by (simp add: rsi_def)
  note a = analyze_stock_long [of yf ticker hist, OF assms(1,2)]
  have "RSI (the (analyze_stock yf ticker)) = rsi hist"
    by (subst a) simp
  with z have "RSI (the (analyze_stock yf ticker)) = 0" by simp
  moreover have "analyze_stock yf ticker = Some (the (analyze_stock yf ticker))"
    by (subst (2) a) (simp add: a)
  ultimately show ?thesis using r0 by blast
qed

theorem rsi_zero_without_losses_witness:
  "(\<lambda>t. Inr [100, 101, 101, 103, 104, 105, 106, 107, 108, 110]) ''TCS.NS''
      = (Inr [100, 101, 101, 103, 104, 105, 106, 107, 108, 110] :: exn + real list)
   \<and> 10 \<le> length [100, 101, 101, 103, 104, 105, 106, 107, 108, 110 :: real]
   \<and> diff [100, 101, 101, 103, 104, 105, 106, 107, 108, 110]
        = [None, Some 1, Some 0, Some 2, Some 1, Some 1, Some 1, Some 1, Some 1, Some 2]
   \<and> rs [100, 101, 101, 103, 104, 105, 106, 107, 108, 110] = 0
   \<and> (\<exists>r. analyze_stock (\<lambda>t. Inr [100, 101, 101, 103, 104, 105, 106, 107, 108, 110]) ''TCS.NS''
              = Some r \<and> RSI r = 0)"
proof -
  let ?h = "[100, 101, 101, 103, 104, 105, 106, 107, 108, 110] :: real list"
  let ?yf = "(\<lambda>t. Inr ?h) :: provider"
  have h1: "?yf ''TCS.NS'' = Inr ?h" by simp
  have h2: "10 \<le> length ?h" by simp
  have h3: "\<forall>d. Some d \<in> set (diff ?h) \<longrightarrow> 0 \<le> d" by auto
  show ?thesis
    using h1 h2 rsi_zero_without_losses [of ?yf "''TCS.NS''" ?h, OF h1 h2 h3] by simp
qed



lemma gain_divides_by_length:
  "gain hist = sum_list (map where_pos (diff hist)) / real (length hist)"
  by (simp add: gain_def mean_def length_diff)












section \<open>Properties of the scan\<close>

lemma scan_loop_results:
  "results (scan_loop yf n i tickers st) = results st @ List.map_filter (analyze_stock yf) tickers"
proof (induction tickers arbitrary: i st)
  case Nil
  then show ?case by simp
next
  case (Cons t ts)
  show ?case
    by (cases "analyze_stock yf t") (simp_all add: Cons.IH)
qed

lemma scan_loop_analysed:
  "analysed (scan_loop yf n i tickers st) = analysed st @ tickers"
  by (induction tickers arbitrary: i st) simp_all

lemma results_scan: "results (scan yf tickers) = List.map_filter (analyze_stock yf) tickers"
  by (simp add: scan_def scan_loop_results)

lemma analysed_scan: "analysed (scan yf tickers) = tickers"
  by (simp add: scan_def scan_loop_analysed)

lemma map_filter_append: "List.map_filter f (xs @ ys) = List.map_filter f xs @ List.map_filter f ys"
  by (simp add: List.map_filter_def)

text \<open>Claim C5. A history of fewer than ten closes, and every exception raised inside
  \<open>analyze_stock\<close>, gives \<open>None\<close> and no partial record; the scan then collects nothing
  for that ticker and goes on, so its results are those of the scan without the ticker.\<close>

theorem failed_ticker_is_dropped:
  assumes "(\<exists>hist. yf ticker = Inr hist \<and> length hist < 10)
           \<or> (\<exists>e. analyze_stock_try yf ticker = Inl e)"
  shows "analyze_stock yf ticker = None
         \<and> results (scan yf (before @ ticker # after)) = results (scan yf (before @ after))"
proof -
  have n: "analyze_stock yf ticker = None"
    using assms analyze_stock_short [of yf ticker] analyze_stock_raise [of yf ticker] by blast
  then have "List.map_filter (analyze_stock yf) (ticker # after)
               = List.map_filter (analyze_stock yf) after"
    by simp
  then show ?thesis using n by (simp add: results_scan map_filter_append)
qed

theorem failed_ticker_is_dropped_witness:
  "analyze_stock (\<lambda>t. if t = ''TCS.NS'' then Inr [100, 101, 101, 103, 104, 105, 106, 107, 108, 110]
                       else if t = ''NEW.NS'' then Inr [100, 101, 102]
                       else Inl FetchError) ''NEW.NS'' = None
   \<and> results (scan (\<lambda>t. if t = ''TCS.NS'' then Inr [100, 101, 101, 103, 104, 105, 106, 107, 108, 110]
                       else if t = ''NEW.NS'' then Inr [100, 101, 102]
                       else Inl FetchError) ([''TCS.NS''] @ ''NEW.NS'' # [''GONE.NS'']))
       = results (scan (\<lambda>t. if t = ''TCS.NS'' then Inr [100, 101, 101, 103, 104, 105, 106, 107, 108, 110]
                       else if t = ''NEW.NS'' then Inr [100, 101, 102]
                       else Inl FetchError) ([''TCS.NS''] @ [''GONE.NS'']))"
proof -
  let ?yf = "(\<lambda>t. if t = ''TCS.NS'' then Inr [100, 101, 101, 103, 104, 105, 106, 107, 108, 110]
                  else if t = ''NEW.NS'' then Inr [100, 101, 102]
                  else Inl FetchError) :: provider"
  have "?yf ''NEW.NS'' = Inr [100, 101, 102] \<and> length [100, 101, 102 :: real] < 10" by simp
  then have h: "(\<exists>hist. ?yf ''NEW.NS'' = Inr hist \<and> length hist < 10)
                \<or> (\<exists>e. analyze_stock_try ?yf ''NEW.NS'' = Inl e)"
    by blast
  show ?thesis
    by (rule failed_ticker_is_dropped [of ?yf "''NEW.NS''" "[''TCS.NS'']" "[''GONE.NS'']", OF h])
qed

lemma select_tickers_full:
  "select_tickers Full_Market_Slow all_nse = (take 200 all_nse, 200 < length all_nse)"
  by (simp add: select_tickers_def)

lemma run_scanned:
  "scanned (run sort_values yf all_nse scan_mode budget num_stocks)
     = scan yf (fst (select_tickers scan_mode all_nse))"
  by (cases "select_tickers scan_mode all_nse") (simp add: run_def Let_def)

lemma run_warning:
  "warning (run sort_values yf all_nse scan_mode budget num_stocks)
     = snd (select_tickers scan_mode all_nse)"
  by (cases "select_tickers scan_mode all_nse") (simp add: run_def Let_def)

lemma run_outcome:
  "outcome (run sort_values yf all_nse scan_mode budget num_stocks)
     = (let st = scan yf (fst (select_tickers scan_mode all_nse))
        in if results st = [] then NoData
           else Allocation (allocate (sort_values (results st)) budget num_stocks))"
  by (cases "select_tickers scan_mode all_nse") (simp add: run_def Let_def)

text \<open>Claim C9. In full-market mode at most 200 tickers are analysed; when the downloaded
  list has more than 200 symbols, the tickers analysed are its first 200 in their order, and
  the warning is shown.\<close>

theorem full_market_cap:
  "length (analysed (scanned (run sort_values yf all_nse Full_Market_Slow budget num_stocks))) \<le> 200
   \<and> (200 < length all_nse \<longrightarrow>
        analysed (scanned (run sort_values yf all_nse Full_Market_Slow budget num_stocks))
          = take 200 all_nse
        \<and> length (analysed (scanned (run sort_values yf all_nse Full_Market_Slow budget num_stocks)))
          = 200
        \<and> warning (run sort_values yf all_nse Full_Market_Slow budget num_stocks))"
  by (simp add: run_scanned run_warning analysed_scan select_tickers_full)

theorem full_market_cap_witness:
  "length (analysed (scanned (run (\<lambda>df. df) (\<lambda>t. Inl FetchError) (replicate 350 ''SYM.NS'')
             Full_Market_Slow 50000 5))) = 200
   \<and> warning (run (\<lambda>df. df) (\<lambda>t. Inl FetchError) (replicate 350 ''SYM.NS'')
             Full_Market_Slow 50000 5)"
  using full_market_cap [of "\<lambda>df. df" "\<lambda>t. Inl FetchError" "replicate 350 ''SYM.NS''" 50000 5]
  by simp

text \<open>Claim C8. When the scan collected no result (every ticker failed, or there was no
  ticker), the run ends with the "No data found." outcome and the allocation is not
  entered, whatever the budget and the number of stocks.\<close>

theorem empty_scan_stops:
  assumes "results (scan yf (fst (select_tickers scan_mode all_nse))) = []"
  shows "outcome (run sort_values yf all_nse scan_mode budget num_stocks) = NoData"
  using assms by (simp add: run_outcome)


theorem empty_scan_stops_witness:
  "results (scan (\<lambda>t. Inl FetchError) (fst (select_tickers Full_Market_Slow [''A.NS'', ''B.NS'']))) = []
   \<and> outcome (run (\<lambda>df. df) (\<lambda>t. Inl FetchError) [''A.NS'', ''B.NS''] Full_Market_Slow 50000 5)
       = NoData"
proof -
  have h: "results (scan (\<lambda>t. Inl FetchError) (fst (select_tickers Full_Market_Slow [''A.NS'', ''B.NS'']))) = []"
    by code_simp
  show ?thesis
    using h empty_scan_stops [of "\<lambda>t. Inl FetchError" Full_Market_Slow "[''A.NS'', ''B.NS'']", OF h]
    by simp
qed

section \<open>Properties of the allocation\<close>

lemma Price_add_columns [simp]: "Price (add_columns r q) = Price r"
  by (simp add: add_columns_def indicator.defs portfolio_row.defs)

lemma Qty_add_columns [simp]: "Qty (add_columns r q) = q"
  by (simp add: add_columns_def indicator.defs portfolio_row.defs)

lemma Total_Cost_add_columns [simp]: "Total_Cost (add_columns r q) = real_of_int q * Price r"
  by (simp add: add_columns_def indicator.defs portfolio_row.defs)























end
